theory Spec2Isabelle
  imports Main "HOL-Library.AList"
begin

section \<open>Child-process execution: \<open>engine::subprocess::ProcessStarter\<close>\<close>

text \<open>
  A shallow embedding of \<open>process_starter.cpp\<close> (\<open>DoExecve\<close> and the three
  \<open>ProcessStarter::Exec\<close> overloads) and of \<open>child_process_status.hpp\<close>.
  The operating system's answers (what \<open>fork\<close> and \<open>execve\<close> return) are inputs,
  the process's mutable state is an explicit record, a C++ exception is a value of type
  \<open>exn\<close>, and every call into the operating system that the code makes is recorded in
  the order in which it is made.
\<close>

subsection \<open>Exceptions and one-shot promises\<close>

text \<open>
  \<open>SystemError errno what\<close> is \<open>std::system_error\<close>, \<open>RuntimeError msg\<close> is
  \<open>std::runtime_error\<close>, \<open>ChildProcessStatusException\<close> is the class declared in
  \<open>child_process_status.hpp\<close>.
\<close>

datatype exn =
    SystemError int string
  | RuntimeError string
  | ChildProcessStatusException

text \<open>
  The shared state of an \<open>engine::Promise\<close>/\<open>engine::Future\<close> pair: not yet set,
  set by \<open>set_value\<close>, or set by \<open>set_exception\<close>.
\<close>

datatype 'a promise_state = Pending | Value 'a | Exception exn

subsection \<open>\<open>ChildProcessStatus\<close>\<close>

datatype ExitReason = kExited | kSignaled

text \<open>
  The four private members of the class, in the header's order (the trailing underscore of
  the C++ names is dropped); the execution time is a count of milliseconds.
\<close>

record ChildProcessStatus =
  execution_time :: int
  exit_reason :: ExitReason
  exit_code :: int
  term_signal :: int

definition GetExitReason :: "ChildProcessStatus \<Rightarrow> ExitReason" where
  "GetExitReason st = exit_reason st"

definition IsExited :: "ChildProcessStatus \<Rightarrow> bool" where
  "IsExited st \<longleftrightarrow> exit_reason st = kExited"

definition IsSignaled :: "ChildProcessStatus \<Rightarrow> bool" where
  "IsSignaled st \<longleftrightarrow> exit_reason st = kSignaled"

definition GetExecutionTime :: "ChildProcessStatus \<Rightarrow> int" where
  "GetExecutionTime st = execution_time st"

text \<open>
  Modelled from the spec: the bodies of \<open>ChildProcessStatus::GetExitCode\<close> and
  \<open>ChildProcessStatus::GetTermSignal\<close> are missing (the header only declares them, with
  the comments "can be called if \<open>IsExited()\<close> returns true" and "can be called if
  \<open>IsSignaled()\<close> returns true"). Spec, section 4.3: "\<open>GetExitCode()\<close> called when not
  exited is a usage fault", "symmetric fault rule" for \<open>GetTermSignal()\<close>; section 7:
  "reported as a local usage fault at the call site, never a silent default value". The
  fault is the header's \<open>ChildProcessStatusException\<close>.
\<close>

definition GetExitCode :: "ChildProcessStatus \<Rightarrow> exn + int" where
  "GetExitCode st =
     (if IsExited st then Inr (exit_code st) else Inl ChildProcessStatusException)"

definition GetTermSignal :: "ChildProcessStatus \<Rightarrow> exn + int" where
  "GetTermSignal st =
     (if IsSignaled st then Inr (term_signal st) else Inl ChildProcessStatusException)"

subsection \<open>Environment variables\<close>

text \<open>
  \<open>EnvironmentVariables\<close> and \<open>EnvironmentVariablesUpdate\<close> map a variable's name to its
  value. They are association lists here, the list order standing for the order in which
  \<open>DoExecve\<close> iterates over the container.
\<close>

type_synonym EnvironmentVariables = "(string \<times> string) list"

type_synonym EnvironmentVariablesUpdate = "(string \<times> string) list"

text \<open>
  Modelled from the spec: \<open>EnvironmentVariables::UpdateWith\<close>
  (\<open>engine/subprocess/environment_variables.hpp\<close>) is missing. Spec, section 6: "inherited
  environment with supplied key/value pairs overlaid (replace existing key, add new key,
  leave others untouched)"; \<open>process_starter.hpp\<close>: "Variables from \<open>env_update\<close> will be
  added to current environment. Existing values will be replaced." Each pair of the update
  is stored in turn: \<open>AList.update\<close> replaces the value of a key that is present and
  appends a key that is not.
\<close>

fun UpdateWith :: "EnvironmentVariables \<Rightarrow> EnvironmentVariablesUpdate \<Rightarrow> EnvironmentVariables" where
  "UpdateWith env [] = env"
| "UpdateWith env ((k, v) # rest) = UpdateWith (AList.update k v env) rest"

subsection \<open>Strings\<close>

text \<open>Decimal digits of a natural number, and \<open>std::to_string\<close> of an \<open>int\<close>.\<close>

definition digit :: "nat \<Rightarrow> char" where
  "digit d = ''0123456789'' ! d"

fun string_of_nat :: "nat \<Rightarrow> string" where
  "string_of_nat n =
     (if n < 10 then [digit n]
      else string_of_nat (n div 10) @ [digit (n mod 10)])"

definition to_string :: "int \<Rightarrow> string" where
  "to_string i = (if i < 0 then CHR ''-'' # string_of_nat (nat (- i)) else string_of_nat (nat i))"

text \<open>\<open>boost::join\<close>: the strings of a sequence, with the separator between neighbours.\<close>

fun join :: "string list \<Rightarrow> string \<Rightarrow> string" where
  "join [] sep = []"
| "join [x] sep = x"
| "join (x # y # ys) sep = x @ sep @ join (y # ys) sep"

definition apostrophe :: char where
  "apostrophe = CHR 0x27"

text \<open>The text of the first \<open>LOG_DEBUG\<close> of the unit of work in \<open>Exec\<close>.\<close>

definition fork_message :: "string \<Rightarrow> string list \<Rightarrow> EnvironmentVariables \<Rightarrow> string" where
  "fork_message command args env =
     ''do fork() + execve(), command='' @ command @ '', args=['' @
     (if args = [] then []
      else apostrophe # join args [apostrophe, CHR '' '', apostrophe] @ [apostrophe]) @
     ''], env=['' @
     (if env = [] then []
      else join (map (\<lambda>key_value. fst key_value @ ''='' @ snd key_value) env) '', '') @
     '']''"

subsection \<open>The process's state\<close>

text \<open>
  A call into the operating system made by the code, with its arguments: \<open>kill(pid, sig)\<close>,
  \<open>freopen(path, mode, stream)\<close> and \<open>execve(path, argv, envp)\<close> (the arrays without
  their terminating null pointer). A string argument is the C string that the call reads.
\<close>

datatype stdio_stream = stdout | stderr

datatype os_call =
    Kill int int
  | Freopen string string stdio_stream
  | Execve string "string list" "string list"

datatype log_level = Debug | Error

text \<open>
  \<open>ev::ChildProcessMapValue\<close>, the value of a registry entry: it holds the promise of the
  child's status. A \<open>Promise<ChildProcessStatus>\<close> is an object with an identity, shared
  with the futures taken from it: it is named by its index in the store
  \<open>status_promises\<close> of the state.
\<close>

record ChildProcessMapValue =
  status_promise :: nat

text \<open>
  \<open>ChildProcessImpl\<close>, which a \<open>ChildProcess\<close> handle owns: the pid and the future of the
  status (\<open>None\<close> for the empty \<open>Future<ChildProcessStatus>{}\<close>), and whether the status
  has been retrieved through the handle (false for a handle just built).
\<close>

record ChildProcessImpl =
  impl_pid :: int
  impl_status_future :: "nat option"
  impl_status_retrieved :: bool

type_synonym ChildProcess = ChildProcessImpl

text \<open>
  The state of one process: its environment, the registry \<open>child_process_map\<close> (pid to
  entry), the store of status promises, the calls made into the operating system, the
  messages handed to the logger and the tags of the tracing span, each in order.
\<close>

record world =
  environ :: EnvironmentVariables
  child_process_map :: "(int \<times> ChildProcessMapValue) list"
  status_promises :: "ChildProcessStatus promise_state list"
  os_calls :: "os_call list"
  log :: "(log_level \<times> string) list"
  span_tags :: "(string \<times> string) list"

definition initial_world :: "EnvironmentVariables \<Rightarrow> world" where
  "initial_world env =
     \<lparr>environ = env, child_process_map = [], status_promises = [], os_calls = [],
      log = [], span_tags = []\<rparr>"

definition GetCurrentEnvironmentVariables :: "world \<Rightarrow> EnvironmentVariables" where
  "GetCurrentEnvironmentVariables w = environ w"

definition LOG_DEBUG :: "string \<Rightarrow> world \<Rightarrow> world" where
  "LOG_DEBUG msg w = w\<lparr>log := log w @ [(Debug, msg)]\<rparr>"

definition LOG_ERROR :: "string \<Rightarrow> world \<Rightarrow> world" where
  "LOG_ERROR msg w = w\<lparr>log := log w @ [(Error, msg)]\<rparr>"

definition AddTag :: "string \<Rightarrow> string \<Rightarrow> world \<Rightarrow> world" where
  "AddTag key val w = w\<lparr>span_tags := span_tags w @ [(key, val)]\<rparr>"

text \<open>Constructing a \<open>Promise<ChildProcessStatus>\<close>: a new pending cell of the store.\<close>

definition new_status_promise :: "world \<Rightarrow> nat \<times> world" where
  "new_status_promise w =
     (length (status_promises w), w\<lparr>status_promises := status_promises w @ [Pending]\<rparr>)"

definition SIGKILL :: int where
  "SIGKILL = 9"

subsection \<open>Collaborators that are not part of the sources\<close>

text \<open>
  The answers of the operating system to one unit of work: what \<open>fork()\<close> returns in the
  process at hand (\<open>-1\<close> on failure, \<open>0\<close> in the child, the child's pid in the parent),
  what \<open>execve()\<close> returns (\<open>None\<close> when it succeeds: the image is replaced and the call
  does not return), and the value of \<open>errno\<close> after a failed call.
\<close>

record os =
  fork_ret :: int
  execve_ret :: "int option"
  errno :: int

text \<open>
  Modelled from the spec: \<open>utils::CheckSyscall\<close> (\<open>utils/check_syscall.hpp\<close>) is missing.
  Spec, section 7, has a failed system call reported as an error "carrying the OS error",
  and \<open>Exec\<close> takes what \<open>CheckSyscall\<close> returns for \<open>fork()\<close> as the pid, testing it
  against zero only, so a failure is not handed back as a value. The result \<open>-1\<close> of a
  system call raises a system error with \<open>errno\<close> and the name of the call; any other
  result is returned. \<open>errno\<close> is a global in C and an argument here.
\<close>

definition CheckSyscall :: "int \<Rightarrow> int \<Rightarrow> string \<Rightarrow> exn + int" where
  "CheckSyscall ret err what = (if ret = - 1 then Inl (SystemError err what) else Inr ret)"

text \<open>
  Modelled from the spec: \<open>ChildProcessMapSet\<close> (\<open>engine/ev/child_process_map.hpp\<close>) is
  missing. Spec, section 4.2: "\<open>TryRegister(pid) -> PendingSlot | AlreadyExists\<close>: atomic
  test-and-set; fails if an entry for that pid is already present"; section 3: "insertion
  when an entry already exists is a contract violation, not silently overwritten". As
  \<open>Exec\<close> uses it, it returns the entry now stored for the pid and whether the insertion
  took place; the model returns the registry as well.
\<close>

definition ChildProcessMapSet ::
  "int \<Rightarrow> 'v \<Rightarrow> (int \<times> 'v) list \<Rightarrow> (int \<times> 'v) list \<times> 'v \<times> bool" where
  "ChildProcessMapSet pid v m =
     (case map_of m pid of
        Some e \<Rightarrow> (m, e, False)
      | None \<Rightarrow> (m @ [(pid, v)], v, True))"

text \<open>
  Modelled from the spec: the reaper is missing. Spec, section 4.2: "\<open>Fulfill(pid, status)\<close>:
  invoked once by the reaper when termination is observed; completes the pending slot and
  removes the entry".
\<close>

definition Fulfill :: "int \<Rightarrow> ChildProcessStatus \<Rightarrow> world \<Rightarrow> world" where
  "Fulfill pid st w =
     (case map_of (child_process_map w) pid of
        None \<Rightarrow> w
      | Some e \<Rightarrow>
          w\<lparr>status_promises := (status_promises w)[status_promise e := Value st],
            child_process_map := filter (\<lambda>kv. fst kv \<noteq> pid) (child_process_map w)\<rparr>)"

text \<open>
  Modelled from the spec: \<open>ChildProcessImpl::SendSignal\<close> (\<open>child_process_impl.hpp\<close>) is
  missing. Spec, section 4.4: "delivers an OS signal to the bound pid"; "once status has
  been retrieved, further signal delivery is refused (reported as a no-op failure, never
  silently forwarded to a possibly-unrelated pid)".
\<close>

definition SendSignal :: "ChildProcessImpl \<Rightarrow> int \<Rightarrow> world \<Rightarrow> world" where
  "SendSignal impl signum w =
     (if impl_status_retrieved impl then w
      else w\<lparr>os_calls := os_calls w @ [Kill (impl_pid impl) signum]\<rparr>)"

subsection \<open>\<open>DoExecve\<close>\<close>

text \<open>
  How a piece of code ends: it returns, it leaves by an exception, the process is
  terminated by \<open>abort()\<close>, or the process image is replaced by a successful \<open>execve()\<close>.
\<close>

datatype completion = Returned | Thrown exn | Aborted | ImageReplaced

text \<open>
  \<open>std::string::c_str()\<close> as the operating system reads it: the characters before the
  first NUL byte (the whole string when it holds none).
\<close>

definition c_str :: "string \<Rightarrow> string" where
  "c_str s = takeWhile (\<lambda>c. c \<noteq> CHR 0x00) s"

text \<open>
  \<open>DoExecve\<close>, run in the child: the two optional \<open>freopen\<close> calls on the \<open>c_str()\<close> of
  the file names (their results are not looked at); the argument vector, which holds the
  \<open>c_str()\<close> of the command, then of each argument; the buffer \<open>envp_buf\<close> with one
  \<open>key=value\<close> string per variable and the environment block, which holds the
  \<open>c_str()\<close> of each string of the buffer; then \<open>execve\<close> on the \<open>c_str()\<close> of the
  command under \<open>CheckSyscall\<close>, then \<open>abort()\<close>.
\<close>

definition DoExecve ::
  "os \<Rightarrow> string \<Rightarrow> string list \<Rightarrow> EnvironmentVariables \<Rightarrow> string option \<Rightarrow> string option \<Rightarrow>
   world \<Rightarrow> world \<times> completion" where
  "DoExecve sys command args env stdout_file stderr_file w =
     (let w1 = (case stdout_file of
                  Some path \<Rightarrow> w\<lparr>os_calls := os_calls w @ [Freopen (c_str path) ''at'' stdout]\<rparr>
                | None \<Rightarrow> w);
          w2 = (case stderr_file of
                  Some path \<Rightarrow> w1\<lparr>os_calls := os_calls w1 @ [Freopen (c_str path) ''at'' stderr]\<rparr>
                | None \<Rightarrow> w1);
          argv_ptrs = c_str command # map c_str args;
          envp_buf = map (\<lambda>elem. fst elem @ ''='' @ snd elem) env;
          envp_ptrs = map c_str envp_buf;
          w3 = w2\<lparr>os_calls := os_calls w2 @ [Execve (c_str command) argv_ptrs envp_ptrs]\<rparr>
      in case execve_ret sys of
           None \<Rightarrow> (w3, ImageReplaced)
         | Some ret \<Rightarrow>
             (case CheckSyscall ret (errno sys) ''execve'' of
                Inl e \<Rightarrow> (w3, Thrown e)
              | Inr _ \<Rightarrow> (w3, Aborted)))"

subsection \<open>\<open>ProcessStarter::Exec\<close>\<close>

text \<open>
  The unit of work that \<open>Exec\<close> hands to \<open>RunInEvLoopAsync\<close>. It yields the state
  afterwards, the state of the caller's \<open>Promise<ChildProcess>\<close> and how the unit ended.
\<close>

definition Exec_lambda ::
  "os \<Rightarrow> string \<Rightarrow> string list \<Rightarrow> EnvironmentVariables \<Rightarrow> string option \<Rightarrow> string option \<Rightarrow>
   world \<Rightarrow> world \<times> ChildProcess promise_state \<times> completion" where
  "Exec_lambda sys command args env stdout_file stderr_file w =
     (let w1 = LOG_DEBUG (fork_message command args env) w in
      case CheckSyscall (fork_ret sys) (errno sys) ''fork'' of
        Inl e \<Rightarrow> (w1, Pending, Thrown e)
      | Inr pid \<Rightarrow>
          if pid \<noteq> 0 then
            (let w2 = AddTag ''child-process-pid'' (to_string pid) w1;
                 w3 = LOG_DEBUG (''Started child process with pid='' @ to_string pid) w2;
                 (exec_result_promise, w4) = new_status_promise w3;
                 (m, entry, inserted) =
                    ChildProcessMapSet pid \<lparr>status_promise = exec_result_promise\<rparr>
                      (child_process_map w4);
                 w5 = w4\<lparr>child_process_map := m\<rparr>
             in if inserted then
                  (w5,
                   Value \<lparr>impl_pid = pid, impl_status_future = Some (status_promise entry),
                          impl_status_retrieved = False\<rparr>,
                   Returned)
                else
                  (let msg = ''process with pid='' @ to_string pid @
                             '' already exists in child_process_map'';
                       w6 = LOG_ERROR (msg @ '', send SIGKILL'') w5;
                       w7 = SendSignal
                              \<lparr>impl_pid = pid, impl_status_future = None,
                               impl_status_retrieved = False\<rparr> SIGKILL w6
                   in (w7, Exception (RuntimeError msg), Returned)))
          else
            (let (w2, c) = DoExecve sys command args env stdout_file stderr_file w1
             in (w2, Pending, c)))"

text \<open>
  \<open>future.get()\<close> on the caller's promise once the unit of work has ended: the value, or
  the exception rethrown. The promise is a local of \<open>Exec\<close> that only the unit of work
  refers to, so one that is still pending then is never set, and the caller is never
  resumed: \<open>None\<close>.
\<close>

definition future_get :: "'a promise_state \<Rightarrow> (exn + 'a) option" where
  "future_get p =
     (case p of Pending \<Rightarrow> None | Value v \<Rightarrow> Some (Inr v) | Exception e \<Rightarrow> Some (Inl e))"

text \<open>
  \<open>Exec(command, args, env, stdout_file, stderr_file)\<close>: the state afterwards, how the
  unit of work ended, and what the caller gets.
\<close>

definition Exec ::
  "os \<Rightarrow> string \<Rightarrow> string list \<Rightarrow> EnvironmentVariables \<Rightarrow> string option \<Rightarrow> string option \<Rightarrow>
   world \<Rightarrow> world \<times> completion \<times> (exn + ChildProcess) option" where
  "Exec sys command args env stdout_file stderr_file w =
     (let w1 = AddTag ''command'' command w;
          (w2, promise, c) = Exec_lambda sys command args env stdout_file stderr_file w1
      in (w2, c, future_get promise))"

text \<open>\<open>Exec(command, args, env_update, stdout_file, stderr_file)\<close>.\<close>

definition Exec_update ::
  "os \<Rightarrow> string \<Rightarrow> string list \<Rightarrow> EnvironmentVariablesUpdate \<Rightarrow> string option \<Rightarrow> string option \<Rightarrow>
   world \<Rightarrow> world \<times> completion \<times> (exn + ChildProcess) option" where
  "Exec_update sys command args env_update stdout_file stderr_file w =
     Exec sys command args (UpdateWith (GetCurrentEnvironmentVariables w) env_update)
       stdout_file stderr_file w"

text \<open>\<open>Exec(command, args, stdout_file, stderr_file)\<close>.\<close>

definition Exec_current ::
  "os \<Rightarrow> string \<Rightarrow> string list \<Rightarrow> string option \<Rightarrow> string option \<Rightarrow>
   world \<Rightarrow> world \<times> completion \<times> (exn + ChildProcess) option" where
  "Exec_current sys command args stdout_file stderr_file w =
     Exec_update sys command args [] stdout_file stderr_file w"

subsection \<open>Histories of one process\<close>

text \<open>
  What changes the registry over time: calls of \<open>Exec\<close> and the reaper's fulfilments.
\<close>

datatype event =
    ExecCall os string "string list" EnvironmentVariables "string option" "string option"
  | Reaped int ChildProcessStatus

fun step :: "event \<Rightarrow> world \<Rightarrow> world" where
  "step (ExecCall sys command args env stdout_file stderr_file) w =
     fst (Exec sys command args env stdout_file stderr_file w)"
| "step (Reaped pid st) w = Fulfill pid st w"

definition run :: "event list \<Rightarrow> world \<Rightarrow> world" where
  "run evs w = fold step evs w"

text \<open>The entries that a registry holds for a pid.\<close>

definition entries_for :: "int \<Rightarrow> (int \<times> 'v) list \<Rightarrow> (int \<times> 'v) list" where
  "entries_for pid m = filter (\<lambda>kv. fst kv = pid) m"

subsection \<open>The parent branch up to the registration\<close>

text \<open>
  The state of the parent after the first \<open>LOG_DEBUG\<close>, the span's
  \<open>child-process-pid\<close> tag and the second \<open>LOG_DEBUG\<close> of the unit of work.
\<close>

definition started :: "string \<Rightarrow> string list \<Rightarrow> EnvironmentVariables \<Rightarrow> int \<Rightarrow> world \<Rightarrow> world" where
  "started command args env pid w =
     LOG_DEBUG (''Started child process with pid='' @ to_string pid)
       (AddTag ''child-process-pid'' (to_string pid)
         (LOG_DEBUG (fork_message command args env) w))"

subsection \<open>Concrete inputs of the examples\<close>

text \<open>
  A parent in which \<open>fork()\<close> returns the pid 4242, and a state whose registry already
  holds an entry for that pid.
\<close>

definition sys_4242 :: os where
  "sys_4242 = \<lparr>fork_ret = 4242, execve_ret = None, errno = 0\<rparr>"

definition world_4242 :: world where
  "world_4242 =
     \<lparr>environ = [], child_process_map = [(4242, \<lparr>status_promise = 0\<rparr>)],
      status_promises = [Pending], os_calls = [], log = [], span_tags = []\<rparr>"

text \<open>
  A process in which \<open>fork()\<close> fails with \<open>EAGAIN\<close> (11), and a child in which
  \<open>execve()\<close> fails with \<open>ENOENT\<close> (2).
\<close>

definition sys_fork_eagain :: os where
  "sys_fork_eagain = \<lparr>fork_ret = - 1, execve_ret = None, errno = 11\<rparr>"

definition sys_child_enoent :: os where
  "sys_child_enoent = \<lparr>fork_ret = 0, execve_ret = Some (- 1), errno = 2\<rparr>"

section \<open>Auxiliary facts\<close>

subsection \<open>Entries of a registry\<close>

lemma entries_for_Nil_iff: "entries_for p m = [] \<longleftrightarrow> p \<notin> fst ` set m"
  by (induction m) (auto simp: entries_for_def)

lemma entries_for_at_most_one_iff:
  "(\<forall>p. length (entries_for p m) \<le> 1) \<longleftrightarrow> distinct (map fst m)"
proof (induction m)
  case Nil
  show ?case by (simp add: entries_for_def)
next
  case (Cons kv m)
  have absent: "fst kv \<notin> fst ` set m \<longleftrightarrow> entries_for (fst kv) m = []"
    by (simp add: entries_for_Nil_iff)
  show ?case
  proof
    assume a: "\<forall>p. length (entries_for p (kv # m)) \<le> 1"
    have "length (entries_for p m) \<le> 1" for p
      using a [rule_format, of p] by (simp add: entries_for_def split: if_splits)
    then have "distinct (map fst m)" using Cons.IH by blast
    moreover have "entries_for (fst kv) m = []"
      using a [rule_format, of "fst kv"] by (simp add: entries_for_def)
    ultimately show "distinct (map fst (kv # m))" using absent by simp
  next
    assume d: "distinct (map fst (kv # m))"
    then have ih: "\<forall>p. length (entries_for p m) \<le> 1" using Cons.IH by simp
    from d have e: "entries_for (fst kv) m = []" using absent by simp
    show "\<forall>p. length (entries_for p (kv # m)) \<le> 1"
    proof
      fix p
      show "length (entries_for p (kv # m)) \<le> 1"
      proof (cases "fst kv = p")
        case True
        then show ?thesis using e by (simp add: entries_for_def)
      next
        case False
        then show ?thesis using ih [rule_format, of p] by (simp add: entries_for_def)
      qed
    qed
  qed
qed

lemma entries_for_empty_iff: "entries_for pid m = [] \<longleftrightarrow> map_of m pid = None"
  by (simp add: entries_for_Nil_iff map_of_eq_None_iff)

lemma entries_for_single:
  "distinct (map fst m) \<Longrightarrow> map_of m pid = Some e \<Longrightarrow> entries_for pid m = [(pid, e)]"
proof (induction m)
  case Nil
  then show ?case by simp
next
  case (Cons kv m)
  show ?case
  proof (cases "fst kv = pid")
    case True
    with Cons.prems have "kv = (pid, e)" by (cases kv) simp
    moreover from True Cons.prems have "entries_for pid m = []"
      by (simp add: entries_for_Nil_iff)
    ultimately show ?thesis by (simp add: entries_for_def)
  next
    case False
    with Cons show ?thesis by (simp add: entries_for_def)
  qed
qed

lemma ChildProcessMapSet_distinct:
  "distinct (map fst m) \<Longrightarrow> distinct (map fst (fst (ChildProcessMapSet pid v m)))"
  by (auto simp: ChildProcessMapSet_def map_of_eq_None_iff split: option.splits)

subsection \<open>The branches of the unit of work\<close>

lemma Exec_lambda_fork_failed:
  "fork_ret sys = - 1 \<Longrightarrow>
   Exec_lambda sys command args env stdout_file stderr_file w =
     (LOG_DEBUG (fork_message command args env) w, Pending,
      Thrown (SystemError (errno sys) ''fork''))"
  by (simp add: Exec_lambda_def CheckSyscall_def Let_def)

lemma Exec_lambda_child:
  "fork_ret sys = 0 \<Longrightarrow>
   Exec_lambda sys command args env stdout_file stderr_file w =
     (fst (DoExecve sys command args env stdout_file stderr_file
             (LOG_DEBUG (fork_message command args env) w)),
      Pending,
      snd (DoExecve sys command args env stdout_file stderr_file
             (LOG_DEBUG (fork_message command args env) w)))"
  by (simp add: Exec_lambda_def CheckSyscall_def Let_def case_prod_beta)

lemma Exec_lambda_registered:
  assumes "fork_ret sys = pid" "pid \<noteq> 0" "pid \<noteq> - 1" "map_of (child_process_map w) pid = None"
  shows "Exec_lambda sys command args env stdout_file stderr_file w =
     ((started command args env pid w)
        \<lparr>status_promises := status_promises w @ [Pending],
         child_process_map :=
           child_process_map w @ [(pid, \<lparr>status_promise = length (status_promises w)\<rparr>)]\<rparr>,
      Value \<lparr>impl_pid = pid, impl_status_future = Some (length (status_promises w)),
             impl_status_retrieved = False\<rparr>,
      Returned)"
  using assms
  by (simp add: Exec_lambda_def CheckSyscall_def Let_def ChildProcessMapSet_def
      new_status_promise_def started_def LOG_DEBUG_def AddTag_def)

lemma Exec_lambda_collision:
  assumes "fork_ret sys = pid" "pid \<noteq> 0" "pid \<noteq> - 1" "map_of (child_process_map w) pid = Some e"
  shows "Exec_lambda sys command args env stdout_file stderr_file w =
     ((started command args env pid w)
        \<lparr>status_promises := status_promises w @ [Pending],
         log := log (started command args env pid w) @
           [(Error, ''process with pid='' @ to_string pid @
                    '' already exists in child_process_map'' @ '', send SIGKILL'')],
         os_calls := os_calls w @ [Kill pid SIGKILL]\<rparr>,
      Exception (RuntimeError (''process with pid='' @ to_string pid @
                    '' already exists in child_process_map'')),
      Returned)"
  using assms
  by (simp add: Exec_lambda_def CheckSyscall_def Let_def ChildProcessMapSet_def
      new_status_promise_def started_def LOG_DEBUG_def LOG_ERROR_def AddTag_def SendSignal_def)

lemma Exec_fst:
  "fst (Exec sys command args env stdout_file stderr_file w) =
   fst (Exec_lambda sys command args env stdout_file stderr_file (AddTag ''command'' command w))"
  by (simp add: Exec_def Let_def case_prod_beta)

lemma Exec_snd:
  "snd (Exec sys command args env stdout_file stderr_file w) =
   (snd (snd (Exec_lambda sys command args env stdout_file stderr_file
                (AddTag ''command'' command w))),
    future_get (fst (snd (Exec_lambda sys command args env stdout_file stderr_file
                (AddTag ''command'' command w)))))"
  by (simp add: Exec_def Let_def case_prod_beta)

lemma Exec_registered:
  assumes "fork_ret sys = pid" and "pid \<noteq> 0" and "pid \<noteq> - 1"
    and "map_of (child_process_map w) pid = None"
  shows "Exec sys command args env stdout_file stderr_file w =
     ((started command args env pid (AddTag ''command'' command w))
        \<lparr>status_promises := status_promises w @ [Pending],
         child_process_map :=
           child_process_map w @ [(pid, \<lparr>status_promise = length (status_promises w)\<rparr>)]\<rparr>,
      Returned,
      Some (Inr \<lparr>impl_pid = pid, impl_status_future = Some (length (status_promises w)),
                 impl_status_retrieved = False\<rparr>))"
proof -
  have reg: "map_of (child_process_map (AddTag ''command'' command w)) pid = None"
    using assms(4) by (simp add: AddTag_def)
  have "Exec sys command args env stdout_file stderr_file w =
      (fst (Exec_lambda sys command args env stdout_file stderr_file (AddTag ''command'' command w)),
       snd (Exec sys command args env stdout_file stderr_file w))"
    by (simp add: Exec_fst [symmetric])
  then show ?thesis
    unfolding Exec_snd Exec_lambda_registered [OF assms(1-3) reg]
    by (simp add: future_get_def AddTag_def)
qed

lemma DoExecve_completion:
  "snd (DoExecve sys command args env stdout_file stderr_file w) =
     (case execve_ret sys of
        None \<Rightarrow> ImageReplaced
      | Some ret \<Rightarrow> if ret = - 1 then Thrown (SystemError (errno sys) ''execve'') else Aborted)"
  by (simp add: DoExecve_def Let_def CheckSyscall_def split: option.splits)

subsection \<open>The registry along a history\<close>

lemma DoExecve_child_process_map:
  "child_process_map (fst (DoExecve sys command args env stdout_file stderr_file w)) =
   child_process_map w"
  by (simp add: DoExecve_def Let_def split: option.splits sum.splits)

lemma Exec_lambda_child_process_map:
  "child_process_map (fst (Exec_lambda sys command args env stdout_file stderr_file w)) =
   (if fork_ret sys = - 1 \<or> fork_ret sys = 0 then child_process_map w
    else fst (ChildProcessMapSet (fork_ret sys) \<lparr>status_promise = length (status_promises w)\<rparr>
               (child_process_map w)))"
proof -
  consider (failed) "fork_ret sys = - 1" | (child) "fork_ret sys = 0"
    | (parent) "fork_ret sys \<noteq> - 1" "fork_ret sys \<noteq> 0"
    by blast
  then show ?thesis
  proof cases
    case failed
    then show ?thesis by (simp add: Exec_lambda_fork_failed LOG_DEBUG_def)
  next
    case child
    then show ?thesis
      by (simp add: Exec_lambda_child DoExecve_child_process_map LOG_DEBUG_def)
  next
    case parent
    show ?thesis
    proof (cases "map_of (child_process_map w) (fork_ret sys)")
      case None
      with parent show ?thesis
        by (simp add: Exec_lambda_registered [OF refl] ChildProcessMapSet_def)
    next
      case (Some e)
      with parent show ?thesis
        by (simp add: Exec_lambda_collision [OF refl] ChildProcessMapSet_def started_def
            LOG_DEBUG_def AddTag_def)
    qed
  qed
qed

lemma Exec_distinct:
  "distinct (map fst (child_process_map w)) \<Longrightarrow>
   distinct (map fst (child_process_map (fst (Exec sys command args env stdout_file stderr_file w))))"
  by (simp add: Exec_fst Exec_lambda_child_process_map ChildProcessMapSet_distinct AddTag_def)

lemma Fulfill_distinct:
  "distinct (map fst (child_process_map w)) \<Longrightarrow>
   distinct (map fst (child_process_map (Fulfill pid st w)))"
  by (simp add: Fulfill_def distinct_map_filter split: option.splits)

lemma step_distinct:
  "distinct (map fst (child_process_map w)) \<Longrightarrow>
   distinct (map fst (child_process_map (step ev w)))"
  by (cases ev) (simp_all add: Exec_distinct Fulfill_distinct)

lemma run_distinct:
  "distinct (map fst (child_process_map w)) \<Longrightarrow>
   distinct (map fst (child_process_map (run evs w)))"
  unfolding run_def
  by (induction evs arbitrary: w) (simp_all add: step_distinct)

lemma initial_world_distinct: "distinct (map fst (child_process_map (initial_world env)))"
  by (simp add: initial_world_def)

lemma to_string_4242: "to_string 4242 = ''4242''"
  by (simp add: to_string_def digit_def)

subsection \<open>Looking a variable up after an update\<close>




subsection \<open>The calls of the child\<close>

lemma c_str_no_NUL: "CHR 0x00 \<notin> set s \<Longrightarrow> c_str s = s"
  by (auto simp: c_str_def takeWhile_eq_all_conv)

lemma DoExecve_os_calls:
  "os_calls (fst (DoExecve sys command args env stdout_file stderr_file w)) =
     os_calls w @
     (case stdout_file of Some path \<Rightarrow> [Freopen (c_str path) ''at'' stdout] | None \<Rightarrow> []) @
     (case stderr_file of Some path \<Rightarrow> [Freopen (c_str path) ''at'' stderr] | None \<Rightarrow> []) @
     [Execve (c_str command) (c_str command # map c_str args)
        (map (\<lambda>elem. c_str (fst elem @ ''='' @ snd elem)) env)]"
  by (simp add: DoExecve_def Let_def comp_def split: option.splits sum.splits)

lemma Exec_child_os_calls:
  "fork_ret sys = 0 \<Longrightarrow>
   os_calls (fst (Exec sys command args env stdout_file stderr_file w)) =
     os_calls w @
     (case stdout_file of Some path \<Rightarrow> [Freopen (c_str path) ''at'' stdout] | None \<Rightarrow> []) @
     (case stderr_file of Some path \<Rightarrow> [Freopen (c_str path) ''at'' stderr] | None \<Rightarrow> []) @
     [Execve (c_str command) (c_str command # map c_str args)
        (map (\<lambda>elem. c_str (fst elem @ ''='' @ snd elem)) env)]"
  by (simp add: Exec_fst Exec_lambda_child DoExecve_os_calls LOG_DEBUG_def AddTag_def)

subsection \<open>What the caller gets once \<open>fork\<close> has returned a pid\<close>

text \<open>
  Whenever \<open>fork()\<close> has returned a pid (neither \<open>-1\<close> nor \<open>0\<close>), the unit of work
  returns and the caller is resumed: with the handle of that pid if the registry had no
  entry for it, and then the registry holds the new entry and the status promise behind
  the handle's future is still pending (the call has not waited for the child to
  terminate); with the collision error if the registry had an entry. The other two
  overloads are \<open>Exec\<close> on the updated and on the current environment.
\<close>

lemma Exec_hands_over_handle_or_error:
  assumes "fork_ret sys = pid" and "pid \<noteq> 0" and "pid \<noteq> - 1"
  shows "(case map_of (child_process_map w) pid of
            None \<Rightarrow>
              snd (Exec sys command args env stdout_file stderr_file w) =
                (Returned,
                 Some (Inr \<lparr>impl_pid = pid,
                            impl_status_future = Some (length (status_promises w)),
                            impl_status_retrieved = False\<rparr>)) \<and>
              map_of (child_process_map (fst (Exec sys command args env stdout_file stderr_file w)))
                pid = Some \<lparr>status_promise = length (status_promises w)\<rparr> \<and>
              status_promises (fst (Exec sys command args env stdout_file stderr_file w)) !
                length (status_promises w) = Pending
          | Some e \<Rightarrow>
              snd (Exec sys command args env stdout_file stderr_file w) =
                (Returned,
                 Some (Inl (RuntimeError (''process with pid='' @ to_string pid @
                                          '' already exists in child_process_map''))))) \<and>
         Exec_update sys command args env_update stdout_file stderr_file w =
           Exec sys command args (UpdateWith (GetCurrentEnvironmentVariables w) env_update)
             stdout_file stderr_file w \<and>
         Exec_current sys command args stdout_file stderr_file w =
           Exec sys command args (GetCurrentEnvironmentVariables w) stdout_file stderr_file w"
proof (cases "map_of (child_process_map w) pid")
  case None
  show ?thesis
    unfolding Exec_registered [of _ _ _ command args env stdout_file stderr_file, OF assms None]
    using None by (simp add: Exec_update_def Exec_current_def map_add_def)
next
  case (Some e)
  have reg: "map_of (child_process_map (AddTag ''command'' command w)) pid = Some e"
    using Some by (simp add: AddTag_def)
  show ?thesis
    unfolding Exec_snd
      Exec_lambda_collision [of _ _ _ _ command args env stdout_file stderr_file, OF assms reg]
    using Some by (simp add: Exec_update_def Exec_current_def future_get_def)
qed

lemma Exec_hands_over_handle_or_error_example:
  "fork_ret sys_4242 = 4242 \<and>
   map_of (child_process_map (initial_world [])) 4242 = None \<and>
   snd (Exec sys_4242 ''/bin/sleep'' [''60''] [] None None (initial_world [])) =
     (Returned,
      Some (Inr \<lparr>impl_pid = 4242, impl_status_future = Some 0, impl_status_retrieved = False\<rparr>)) \<and>
   status_promises (fst (Exec sys_4242 ''/bin/sleep'' [''60''] [] None None (initial_world []))) ! 0 =
     Pending \<and>
   snd (Exec sys_4242 ''/bin/sleep'' [''60''] [] None None world_4242) =
     (Returned,
      Some (Inl (RuntimeError ''process with pid=4242 already exists in child_process_map'')))"
  using Exec_hands_over_handle_or_error
      [where sys = sys_4242 and pid = 4242 and w = "initial_world []" and
        command = "''/bin/sleep''" and args = "[''60'']" and env = "[]" and
        stdout_file = None and stderr_file = None]
    Exec_hands_over_handle_or_error
      [where sys = sys_4242 and pid = 4242 and w = world_4242 and
        command = "''/bin/sleep''" and args = "[''60'']" and env = "[]" and
        stdout_file = None and stderr_file = None]
  by (simp add: sys_4242_def world_4242_def initial_world_def to_string_4242)

section \<open>The claims\<close>

subsection \<open>Registration collisions\<close>

text \<open>
  Claim C1. Whenever \<open>fork()\<close> has returned a pid for which the registry already holds an
  entry, \<open>Exec\<close> sends \<open>SIGKILL\<close> to that pid (the only call into the operating system it
  makes), logs the collision at error level, and fails the caller's promise with a
  \<open>std::runtime_error\<close> that names the pid, which \<open>future.get()\<close> rethrows to the caller.
  The registry is left as it was, the entry found for the pid included, and no status
  promise that existed before is touched: the store only grows by the promise that was
  built for the rejected entry.
\<close>

theorem Exec_registration_collision:
  assumes "fork_ret sys = pid" and "pid \<noteq> 0" and "pid \<noteq> - 1"
    and "map_of (child_process_map w) pid = Some e"
  shows "let msg = ''process with pid='' @ to_string pid @
                   '' already exists in child_process_map'';
             w' = fst (Exec sys command args env stdout_file stderr_file w)
         in snd (Exec sys command args env stdout_file stderr_file w) =
              (Returned, Some (Inl (RuntimeError msg))) \<and>
            os_calls w' = os_calls w @ [Kill pid SIGKILL] \<and>
            log w' = log w @
              [(Debug, fork_message command args env),
               (Debug, ''Started child process with pid='' @ to_string pid),
               (Error, msg @ '', send SIGKILL'')] \<and>
            child_process_map w' = child_process_map w \<and>
            map_of (child_process_map w') pid = Some e \<and>
            status_promises w' = status_promises w @ [Pending]"
proof -
  have reg: "map_of (child_process_map (AddTag ''command'' command w)) pid = Some e"
    using assms(4) by (simp add: AddTag_def)
  note run = Exec_lambda_collision [OF assms(1-3) reg, of command args env stdout_file stderr_file]
  show ?thesis
    unfolding Let_def Exec_fst Exec_snd run
    using assms(4)
    by (simp add: future_get_def started_def LOG_DEBUG_def AddTag_def)
qed

theorem Exec_registration_collision_witness:
  "fork_ret sys_4242 = 4242 \<and>
   map_of (child_process_map world_4242) 4242 = Some \<lparr>status_promise = 0\<rparr> \<and>
   snd (Exec sys_4242 ''/bin/sleep'' [''60''] [] None None world_4242) =
     (Returned,
      Some (Inl (RuntimeError ''process with pid=4242 already exists in child_process_map''))) \<and>
   os_calls (fst (Exec sys_4242 ''/bin/sleep'' [''60''] [] None None world_4242)) =
     [Kill 4242 9] \<and>
   child_process_map (fst (Exec sys_4242 ''/bin/sleep'' [''60''] [] None None world_4242)) =
     [(4242, \<lparr>status_promise = 0\<rparr>)] \<and>
   status_promises (fst (Exec sys_4242 ''/bin/sleep'' [''60''] [] None None world_4242)) =
     [Pending, Pending]"
  using Exec_registration_collision
    [of sys_4242 4242 world_4242 "\<lparr>status_promise = 0\<rparr>" "''/bin/sleep''" "[''60'']" "[]"
        None None]
  by (simp add: Let_def sys_4242_def world_4242_def to_string_4242 SIGKILL_def)

subsection \<open>The registry holds one entry for a pid\<close>

text \<open>
  Claim C2. In every registry that a history of \<open>Exec\<close> calls and reaper fulfilments
  reaches from the empty one, a pid has at most one entry. On such a registry
  \<open>ChildProcessMapSet\<close> inserts if and only if the pid has no entry; when it does not
  insert, the registry is returned as it was and the entry handed back is the one already
  there; when it inserts, the pid gets exactly the new entry and the entries of every other
  pid stay; either way a pid has at most one entry afterwards. (The test and the insertion
  are one step of the model; that no other thread runs between them is not expressed.)
\<close>

theorem registry_insert_if_absent:
  assumes "m = child_process_map (run evs (initial_world env))"
  shows "(\<forall>p. length (entries_for p m) \<le> 1) \<and>
         (case ChildProcessMapSet pid v m of
            (m', entry, inserted) \<Rightarrow>
              (inserted \<longleftrightarrow> entries_for pid m = []) \<and>
              (\<not> inserted \<longrightarrow> m' = m \<and> entries_for pid m = [(pid, entry)]) \<and>
              (inserted \<longrightarrow> entry = v \<and> entries_for pid m' = [(pid, v)] \<and>
                 (\<forall>q. q \<noteq> pid \<longrightarrow> entries_for q m' = entries_for q m)) \<and>
              (\<forall>p. length (entries_for p m') \<le> 1))"
proof -
  have d: "distinct (map fst m)"
    unfolding assms by (rule run_distinct [OF initial_world_distinct])
  have inv: "\<forall>p. length (entries_for p m) \<le> 1"
    using d by (simp only: entries_for_at_most_one_iff)
  show ?thesis
  proof (cases "map_of m pid")
    case None
    then have e: "entries_for pid m = []" by (simp add: entries_for_empty_iff)
    have d': "distinct (map fst (m @ [(pid, v)]))"
      using d None by (simp add: map_of_eq_None_iff)
    have "\<forall>p. length (entries_for p (m @ [(pid, v)])) \<le> 1"
      using d' by (simp only: entries_for_at_most_one_iff)
    moreover have "entries_for pid (m @ [(pid, v)]) = [(pid, v)]"
      using e by (simp add: entries_for_def)
    moreover have "\<forall>q. q \<noteq> pid \<longrightarrow> entries_for q (m @ [(pid, v)]) = entries_for q m"
      by (simp add: entries_for_def)
    ultimately show ?thesis
      using inv e None by (simp add: ChildProcessMapSet_def)
  next
    case (Some entry)
    then have "entries_for pid m = [(pid, entry)]"
      using d by (simp add: entries_for_single)
    then show ?thesis
      using inv Some by (simp add: ChildProcessMapSet_def)
  qed
qed

theorem registry_insert_if_absent_witness:
  "child_process_map
     (run [ExecCall \<lparr>fork_ret = 4242, execve_ret = None, errno = 0\<rparr> ''/bin/sleep'' [''60''] [] None None,
           ExecCall \<lparr>fork_ret = 4243, execve_ret = None, errno = 0\<rparr> ''/bin/true'' [] [] None None,
           Reaped 4243 \<lparr>execution_time = 2, exit_reason = kExited, exit_code = 0, term_signal = 0\<rparr>]
        (initial_world [])) = [(4242, \<lparr>status_promise = 0\<rparr>)] \<and>
   ChildProcessMapSet 4242 \<lparr>status_promise = 2\<rparr> [(4242, \<lparr>status_promise = 0\<rparr>)] =
     ([(4242, \<lparr>status_promise = 0\<rparr>)], \<lparr>status_promise = 0\<rparr>, False) \<and>
   ChildProcessMapSet 4243 \<lparr>status_promise = 2\<rparr> [(4242, \<lparr>status_promise = 0\<rparr>)] =
     ([(4242, \<lparr>status_promise = 0\<rparr>), (4243, \<lparr>status_promise = 2\<rparr>)], \<lparr>status_promise = 2\<rparr>, True) \<and>
   length (entries_for 4242 [(4242, \<lparr>status_promise = 0\<rparr>), (4243, \<lparr>status_promise = 2\<rparr>)]) \<le> 1"
proof -
  have r: "child_process_map
     (run [ExecCall \<lparr>fork_ret = 4242, execve_ret = None, errno = 0\<rparr> ''/bin/sleep'' [''60''] [] None None,
           ExecCall \<lparr>fork_ret = 4243, execve_ret = None, errno = 0\<rparr> ''/bin/true'' [] [] None None,
           Reaped 4243 \<lparr>execution_time = 2, exit_reason = kExited, exit_code = 0, term_signal = 0\<rparr>]
        (initial_world [])) = [(4242, \<lparr>status_promise = 0\<rparr>)]"
    by (simp add: run_def Exec_fst Exec_lambda_child_process_map ChildProcessMapSet_def
        Fulfill_def initial_world_def AddTag_def)
  show ?thesis
    using registry_insert_if_absent [OF r [symmetric], of 4242 "\<lparr>status_promise = 2\<rparr>"]
      registry_insert_if_absent [OF r [symmetric], of 4243 "\<lparr>status_promise = 2\<rparr>"]
    by (simp add: r ChildProcessMapSet_def entries_for_def)
qed

subsection \<open>A failing \<open>execve\<close>\<close>

text \<open>
  Claim C3 says that the child aborts when \<open>execve()\<close> fails and that this path has no
  error return. The code does otherwise: \<open>execve\<close>'s result goes through \<open>CheckSyscall\<close>
  first, which raises on \<open>-1\<close>, so \<open>abort()\<close> is not reached. What is proved: when
  \<open>execve()\<close> returns \<open>-1\<close>, \<open>DoExecve\<close> ends by the system error carrying \<open>errno\<close>
  and does not abort; and in the child (\<open>fork()\<close> returned \<open>0\<close>) this exception leaves the
  unit of work of \<open>Exec\<close>, whose promise stays pending.
\<close>

theorem DoExecve_execve_failure:
  assumes "execve_ret sys = Some (- 1)"
  shows "snd (DoExecve sys command args env stdout_file stderr_file w) =
           Thrown (SystemError (errno sys) ''execve'') \<and>
         snd (DoExecve sys command args env stdout_file stderr_file w) \<noteq> Aborted \<and>
         (fork_ret sys = 0 \<longrightarrow>
            snd (Exec sys command args env stdout_file stderr_file w) =
              (Thrown (SystemError (errno sys) ''execve''), None))"
  using assms
  by (simp add: DoExecve_completion Exec_snd Exec_lambda_child future_get_def)

theorem DoExecve_execve_failure_witness:
  "execve_ret sys_child_enoent = Some (- 1) \<and> fork_ret sys_child_enoent = 0 \<and>
   snd (DoExecve sys_child_enoent ''/no/such/file'' [] [] None None (initial_world [])) =
     Thrown (SystemError 2 ''execve'') \<and>
   snd (Exec sys_child_enoent ''/no/such/file'' [] [] None None (initial_world [])) =
     (Thrown (SystemError 2 ''execve''), None)"
  using DoExecve_execve_failure
    [of sys_child_enoent "''/no/such/file''" "[]" "[]" None None "initial_world []"]
  by (simp add: sys_child_enoent_def)

subsection \<open>A failing \<open>fork\<close>\<close>

text \<open>
  Claim C4 says that a failure of \<open>fork()\<close> reaches the caller as a failed future that
  carries the error of the operating system. The code does otherwise: \<open>CheckSyscall\<close>
  raises inside the unit of work, nothing there catches the exception, and
  \<open>promise.set_exception\<close> is called on the collision path only. What is proved: when
  \<open>fork()\<close> returns \<open>-1\<close>, the unit of work ends by the system error after its first
  log message, having made no call into the operating system and leaving the registry as
  it was; the caller's promise is still pending, and \<open>future.get()\<close> gives the caller
  nothing.
\<close>

theorem Exec_fork_failure:
  assumes "fork_ret sys = - 1"
  shows "Exec_lambda sys command args env stdout_file stderr_file w =
           (LOG_DEBUG (fork_message command args env) w, Pending,
            Thrown (SystemError (errno sys) ''fork'')) \<and>
         Exec sys command args env stdout_file stderr_file w =
           (LOG_DEBUG (fork_message command args env) (AddTag ''command'' command w),
            Thrown (SystemError (errno sys) ''fork''), None)"
  using assms
  by (simp add: Exec_def Exec_lambda_fork_failed future_get_def)

theorem Exec_fork_failure_witness:
  "fork_ret sys_fork_eagain = - 1 \<and>
   fst (snd (Exec_lambda sys_fork_eagain ''/bin/echo'' [''hello''] [] None None (initial_world []))) =
     Pending \<and>
   snd (Exec sys_fork_eagain ''/bin/echo'' [''hello''] [] None None (initial_world [])) =
     (Thrown (SystemError 11 ''fork''), None)"
  using Exec_fork_failure
    [of sys_fork_eagain "''/bin/echo''" "[''hello'']" "[]" None None "initial_world []"]
  by (simp add: sys_fork_eagain_def)

subsection \<open>What \<open>Exec\<close> hands to its caller\<close>

text \<open>
  Claim C6 has each of the three \<open>Exec\<close> operations yield a handle or an error to a
  caller that is suspended only until the unit of work has completed. The code does
  otherwise when \<open>fork()\<close> fails (here with \<open>ENOMEM\<close>, 12): the unit of work ends by the
  exception that \<open>CheckSyscall\<close> raises, the promise is never set, and the caller of each
  of the three operations gets neither a handle nor an error.
\<close>

theorem Exec_fork_failure_no_result:
  "snd (snd (Exec \<lparr>fork_ret = - 1, execve_ret = None, errno = 12\<rparr> ''/bin/echo'' [''hello'']
               [] None None (initial_world []))) = None \<and>
   snd (snd (Exec_update \<lparr>fork_ret = - 1, execve_ret = None, errno = 12\<rparr> ''/bin/echo''
               [''hello''] [(''LANG'', ''C'')] None None (initial_world []))) = None \<and>
   snd (snd (Exec_current \<lparr>fork_ret = - 1, execve_ret = None, errno = 12\<rparr> ''/bin/echo''
               [''hello''] None None (initial_world []))) = None"
  by (simp add: Exec_current_def Exec_update_def Exec_snd Exec_lambda_fork_failed future_get_def)

subsection \<open>The environment of the update form\<close>




subsection \<open>Standard streams of the child\<close>

text \<open>
  Claim C8 has the child reopen the stream onto the path given. A path that holds a NUL
  byte is cut there: \<open>freopen\<close> gets its \<open>c_str()\<close>. Here \<open>stdout_file\<close> is \<open>a\<close>, NUL,
  \<open>b\<close>, and the child reopens \<open>stdout\<close> onto \<open>a\<close>; no call names the path as given.
\<close>

theorem Exec_child_NUL_path:
  "os_calls (fst (Exec \<lparr>fork_ret = 0, execve_ret = None, errno = 0\<rparr> ''/bin/echo'' [''hello'']
                    [] (Some [CHR ''a'', CHR 0x00, CHR ''b'']) None (initial_world []))) =
     [Freopen ''a'' ''at'' stdout, Execve ''/bin/echo'' [''/bin/echo'', ''hello''] []] \<and>
   Freopen [CHR ''a'', CHR 0x00, CHR ''b''] ''at'' stdout \<notin>
     set (os_calls (fst (Exec \<lparr>fork_ret = 0, execve_ret = None, errno = 0\<rparr> ''/bin/echo''
                           [''hello''] [] (Some [CHR ''a'', CHR 0x00, CHR ''b'']) None
                           (initial_world []))))"
  by (simp add: Exec_child_os_calls initial_world_def c_str_def)

text \<open>
  Claim C8, amended. In the child (\<open>fork()\<close> returned \<open>0\<close>) each of the three \<open>Exec\<close>
  operations makes these calls, in this order: \<open>freopen\<close> of \<open>stdout\<close> with mode
  \<open>"at"\<close> (append, text) on \<open>stdout_file\<close> read up to its first NUL byte, if that file is
  given; \<open>freopen\<close> of \<open>stderr\<close> with the same mode on \<open>stderr_file\<close> read likewise, if
  that file is given; and \<open>execve\<close> last. For an omitted file there is no call on the
  stream, which stays the one inherited from the parent. A path without a NUL byte is
  read whole.
\<close>

theorem Exec_child_stdio_redirection:
  assumes "fork_ret sys = 0"
  shows "os_calls (fst (Exec sys command args env stdout_file stderr_file w)) =
           os_calls w @
           (case stdout_file of Some path \<Rightarrow> [Freopen (c_str path) ''at'' stdout] | None \<Rightarrow> []) @
           (case stderr_file of Some path \<Rightarrow> [Freopen (c_str path) ''at'' stderr] | None \<Rightarrow> []) @
           [Execve (c_str command) (c_str command # map c_str args)
              (map (\<lambda>elem. c_str (fst elem @ ''='' @ snd elem)) env)] \<and>
         os_calls (fst (Exec_update sys command args env_update stdout_file stderr_file w)) =
           os_calls w @
           (case stdout_file of Some path \<Rightarrow> [Freopen (c_str path) ''at'' stdout] | None \<Rightarrow> []) @
           (case stderr_file of Some path \<Rightarrow> [Freopen (c_str path) ''at'' stderr] | None \<Rightarrow> []) @
           [Execve (c_str command) (c_str command # map c_str args)
              (map (\<lambda>elem. c_str (fst elem @ ''='' @ snd elem))
                 (UpdateWith (GetCurrentEnvironmentVariables w) env_update))] \<and>
         os_calls (fst (Exec_current sys command args stdout_file stderr_file w)) =
           os_calls w @
           (case stdout_file of Some path \<Rightarrow> [Freopen (c_str path) ''at'' stdout] | None \<Rightarrow> []) @
           (case stderr_file of Some path \<Rightarrow> [Freopen (c_str path) ''at'' stderr] | None \<Rightarrow> []) @
           [Execve (c_str command) (c_str command # map c_str args)
              (map (\<lambda>elem. c_str (fst elem @ ''='' @ snd elem))
                 (GetCurrentEnvironmentVariables w))] \<and>
         (\<forall>path. CHR 0x00 \<notin> set path \<longrightarrow> c_str path = path)"
  using assms
  by (simp add: Exec_current_def Exec_update_def Exec_child_os_calls c_str_no_NUL)

theorem Exec_child_stdio_redirection_witness:
  "fork_ret \<lparr>fork_ret = 0, execve_ret = None, errno = 0\<rparr> = 0 \<and>
   os_calls (fst (Exec \<lparr>fork_ret = 0, execve_ret = None, errno = 0\<rparr> ''/bin/echo'' [''hello'']
                    [] (Some ''/tmp/out.txt'') None (initial_world []))) =
     [Freopen ''/tmp/out.txt'' ''at'' stdout, Execve ''/bin/echo'' [''/bin/echo'', ''hello''] []] \<and>
   os_calls (fst (Exec_current \<lparr>fork_ret = 0, execve_ret = None, errno = 0\<rparr> ''/bin/echo''
                    [''hello''] None (Some ''/tmp/err.txt'') (initial_world [(''LANG'', ''C'')]))) =
     [Freopen ''/tmp/err.txt'' ''at'' stderr,
      Execve ''/bin/echo'' [''/bin/echo'', ''hello''] [''LANG=C'']]"
  using Exec_child_stdio_redirection
    [where sys = "\<lparr>fork_ret = 0, execve_ret = None, errno = 0\<rparr>" and command = "''/bin/echo''"
      and args = "[''hello'']" and env = "[]" and stdout_file = "Some ''/tmp/out.txt''"
      and stderr_file = None and w = "initial_world []"]
    Exec_child_stdio_redirection
    [where sys = "\<lparr>fork_ret = 0, execve_ret = None, errno = 0\<rparr>" and command = "''/bin/echo''"
      and args = "[''hello'']" and stdout_file = None and stderr_file = "Some ''/tmp/err.txt''"
      and w = "initial_world [(''LANG'', ''C'')]"]
  by (simp add: initial_world_def GetCurrentEnvironmentVariables_def c_str_def)

subsection \<open>Reading the wrong field of a status\<close>

text \<open>
  Claim C9. \<open>GetExitCode\<close> on a status that is not exited, and \<open>GetTermSignal\<close> on a
  status that is not signaled, end in a \<open>ChildProcessStatusException\<close> and in no value;
  on a status of the right kind they return the stored field.
\<close>

theorem GetExitCode_GetTermSignal_usage_fault:
  "(\<not> IsExited st \<longrightarrow>
      GetExitCode st = Inl ChildProcessStatusException \<and> (\<forall>v. GetExitCode st \<noteq> Inr v)) \<and>
   (\<not> IsSignaled st \<longrightarrow>
      GetTermSignal st = Inl ChildProcessStatusException \<and> (\<forall>v. GetTermSignal st \<noteq> Inr v)) \<and>
   (IsExited st \<longrightarrow> GetExitCode st = Inr (exit_code st)) \<and>
   (IsSignaled st \<longrightarrow> GetTermSignal st = Inr (term_signal st))"
  by (simp add: GetExitCode_def GetTermSignal_def)

theorem GetExitCode_GetTermSignal_usage_fault_witness:
  "\<not> IsExited \<lparr>execution_time = 120, exit_reason = kSignaled, exit_code = 0, term_signal = 9\<rparr> \<and>
   GetExitCode \<lparr>execution_time = 120, exit_reason = kSignaled, exit_code = 0, term_signal = 9\<rparr> =
     Inl ChildProcessStatusException \<and>
   GetTermSignal \<lparr>execution_time = 120, exit_reason = kSignaled, exit_code = 0, term_signal = 9\<rparr> =
     Inr 9 \<and>
   \<not> IsSignaled \<lparr>execution_time = 35, exit_reason = kExited, exit_code = 3, term_signal = 0\<rparr> \<and>
   GetTermSignal \<lparr>execution_time = 35, exit_reason = kExited, exit_code = 3, term_signal = 0\<rparr> =
     Inl ChildProcessStatusException \<and>
   GetExitCode \<lparr>execution_time = 35, exit_reason = kExited, exit_code = 3, term_signal = 0\<rparr> =
     Inr 3"
  using GetExitCode_GetTermSignal_usage_fault
      [of "\<lparr>execution_time = 120, exit_reason = kSignaled, exit_code = 0, term_signal = 9\<rparr>"]
    GetExitCode_GetTermSignal_usage_fault
      [of "\<lparr>execution_time = 35, exit_reason = kExited, exit_code = 3, term_signal = 0\<rparr>"]
  by (simp add: IsExited_def IsSignaled_def)

subsection \<open>The overload without an environment\<close>

text \<open>
  Claim C10. \<open>Exec\<close> without an environment argument is the update form with the empty
  update; updating with nothing leaves the current environment as it is; so the call is
  the full-environment \<open>Exec\<close> on the current environment of the process: the same
  state afterwards, the same end of the unit of work and the same result for the caller.
\<close>

theorem Exec_current_is_Exec_of_current_environment:
  "Exec_current sys command args stdout_file stderr_file w =
     Exec_update sys command args [] stdout_file stderr_file w \<and>
   UpdateWith (GetCurrentEnvironmentVariables w) [] = GetCurrentEnvironmentVariables w \<and>
   Exec_current sys command args stdout_file stderr_file w =
     Exec sys command args (GetCurrentEnvironmentVariables w) stdout_file stderr_file w"
  by (simp add: Exec_current_def Exec_update_def)

end
